theory Spec2Isabelle
  imports Complex_Main
begin

section \<open>Data model of the media player (MediaPlayerContext.jsx)\<close>

text \<open>
  Times are JavaScript numbers; they are modelled as \<open>real\<close>, so every timestamp is a
  finite number. A value that is not a finite number (the result of
  \<open>undefined + 0\<close>) is the separate constructor \<open>NaN\<close> of \<open>jsnum\<close>.
\<close>

datatype jsnum = Finite real | NaN

text \<open>Values of the properties of a playlist entry that the player never reads.\<close>

datatype jsval = JNum real | JStr string | JBool bool | JNull

text \<open>
  \<open>timingData\<close> of a playlist entry: an object \<open>{reference, timestamps}\<close> or
  \<open>null\<close>; \<open>timestamps\<close> may be missing from the object.
\<close>

record timing =
  timingReference :: string
  timestamps :: "real list option"

text \<open>
  A playlist entry as the caller supplies it. \<open>audioUrl\<close>, \<open>timingData\<close> and
  \<open>reference\<close> are the properties the player reads; \<open>meta\<close> holds every other
  own property of the object (section number, image, display text, ...), by name.
\<close>

record descriptor =
  audioUrl :: string
  timingData :: "timing option"
  reference :: "string option"
  meta :: "(string \<times> jsval) list"

text \<open>
  An entry of the segment map: \<open>{...segment, index, startTimestamp, endTimestamp,
  duration, virtualStart, virtualEnd}\<close>. The six names after the spread are own
  properties of the new object, whatever the entry carried under these names.
\<close>

record segment = descriptor +
  index :: nat
  startTimestamp :: real
  endTimestamp :: real
  duration :: real
  virtualStart :: real
  virtualEnd :: real

section \<open>JavaScript helpers\<close>

text \<open>\<open>xs[i]\<close>: \<open>undefined\<close> (here \<open>None\<close>) out of range.\<close>

definition at_index :: "'a list \<Rightarrow> nat \<Rightarrow> 'a option" where
  "at_index xs i = (if i < length xs then Some (xs ! i) else None)"

text \<open>\<open>xs[xs.length - 1]\<close>: index \<open>-1\<close> of an empty array is \<open>undefined\<close>.\<close>

definition at_last :: "'a list \<Rightarrow> 'a option" where
  "at_last xs = (if xs = [] then None else Some (last xs))"

text \<open>\<open>v || d\<close> on a number that may be \<open>undefined\<close>: \<open>undefined\<close> and \<open>0\<close> are falsy.\<close>

definition num_or :: "real option \<Rightarrow> real \<Rightarrow> real" where
  "num_or v d = (case v of None \<Rightarrow> d | Some x \<Rightarrow> if x = 0 then d else x)"

text \<open>\<open>segment.timingData?.timestamps || []\<close> (an array, even an empty one, is truthy).\<close>

definition timestampsOf :: "'a descriptor_scheme \<Rightarrow> real list" where
  "timestampsOf d =
     (case timingData d of
        None \<Rightarrow> []
      | Some t \<Rightarrow> (case timestamps t of None \<Rightarrow> [] | Some ts \<Rightarrow> ts))"

section \<open>buildSegmentMap\<close>

definition segmentDurationOf :: "real list \<Rightarrow> real" where
  "segmentDurationOf ts = (if length ts \<ge> 2 then last ts - hd ts else 0)"

definition enhance :: "nat \<Rightarrow> real \<Rightarrow> descriptor \<Rightarrow> segment" where
  "enhance i cumulativeTime d =
     (let ts = timestampsOf d;
          segmentDuration = segmentDurationOf ts;
          startTs = num_or (at_index ts 0) 0;
          endTs = num_or (at_last ts) startTs
      in \<lparr> audioUrl = audioUrl d, timingData = timingData d, reference = reference d,
           meta = meta d,
           index = i,
           startTimestamp = startTs,
           endTimestamp = endTs,
           duration = segmentDuration,
           virtualStart = cumulativeTime,
           virtualEnd = cumulativeTime + segmentDuration \<rparr>)"

text \<open>
  The body of \<open>playlist.map((segment, index) => ...)\<close> with the running
  \<open>cumulativeTime\<close>: the entries from position \<open>i\<close> on.
\<close>

fun buildFrom :: "nat \<Rightarrow> real \<Rightarrow> descriptor list \<Rightarrow> segment list" where
  "buildFrom i cumulativeTime [] = []"
| "buildFrom i cumulativeTime (d # ds) =
     enhance i cumulativeTime d
       # buildFrom (Suc i) (cumulativeTime + segmentDurationOf (timestampsOf d)) ds"

text \<open>\<open>None\<close> is a missing (\<open>null\<close> or \<open>undefined\<close>) playlist.\<close>

definition buildSegmentMap :: "descriptor list option \<Rightarrow> segment list" where
  "buildSegmentMap playlist =
     (case playlist of
        None \<Rightarrow> []
      | Some ds \<Rightarrow> if ds = [] then [] else buildFrom 0 0 ds)"

text \<open>
  Reading a property by name. On a playlist entry the names other than
  \<open>audioUrl\<close>, \<open>timingData\<close> and \<open>reference\<close> are looked up in \<open>meta\<close>; on an entry of
  the segment map the six names written after the spread win over \<open>meta\<close>.
\<close>

definition descriptorProp :: "descriptor \<Rightarrow> string \<Rightarrow> jsval option" where
  "descriptorProp d k = map_of (meta d) k"

definition computedKeys :: "string list" where
  "computedKeys = [''index'', ''startTimestamp'', ''endTimestamp'', ''duration'',
                   ''virtualStart'', ''virtualEnd'']"

definition segmentProp :: "segment \<Rightarrow> string \<Rightarrow> jsval option" where
  "segmentProp s k =
     (if k = ''index'' then Some (JNum (real (index s)))
      else if k = ''startTimestamp'' then Some (JNum (startTimestamp s))
      else if k = ''endTimestamp'' then Some (JNum (endTimestamp s))
      else if k = ''duration'' then Some (JNum (duration s))
      else if k = ''virtualStart'' then Some (JNum (virtualStart s))
      else if k = ''virtualEnd'' then Some (JNum (virtualEnd s))
      else map_of (meta s) k)"

text \<open>\<open>segmentMap.length > 0 ? segmentMap[segmentMap.length - 1].virtualEnd : 0\<close>\<close>

definition mapTotalDuration :: "segment list \<Rightarrow> real" where
  "mapTotalDuration segmentMap = (if segmentMap = [] then 0 else virtualEnd (last segmentMap))"

section \<open>The audio element and the player\<close>

text \<open>
  The one \<open>Audio\<close> element, as far as the player drives it: the fields it assigns
  (\<open>src\<close>, \<open>currentTime\<close>), whether it is paused, how often \<open>load()\<close> and
  \<open>play()\<close> were called, and the target times of the \<open>loadeddata\<close> listeners still
  registered. What the browser itself does to the element (buffering, clamping a
  position to the length of the media, URL resolution of \<open>src\<close>) is not part of the
  source and not modelled; URLs are taken to be absolute, as the callers supply them.
\<close>

record audio =
  src :: string
  audioCurrentTime :: real
  paused :: bool
  loadCalls :: nat
  playCalls :: nat
  loadedHandlers :: "jsnum list"

text \<open>The React state of \<open>MediaPlayerProvider\<close>.\<close>

record playerState =
  currentPlaylist :: "descriptor list option"
  queue :: "descriptor list list"
  isPlaying :: bool
  isPaused :: bool
  currentSegmentIndex :: nat
  currentTime :: real
  mediaDuration :: real
  virtualTime :: real
  totalDuration :: real
  isLoading :: bool
  error :: "string option"
  playbackRate :: real
  isMinimized :: bool

text \<open>Work the source leaves for later: \<open>setTimeout\<close> callbacks and \<open>play()\<close> promises.\<close>

datatype callback = TryPlayNext | TryPlaySeek | CallPlay | ClearSeeking

datatype promise = PlayQueued | PlayResume | PlayUser

text \<open>
  The provider: its state, its refs (the synchronous mirrors of the state), the pending
  timers (delay in ms, callback) and promises, and the console. \<open>state\<close> holds every
  update made so far; \<open>renderedQueue\<close> is \<open>state.queue\<close> as the last render saw it,
  which is what the callbacks created by that render read.
\<close>

record player =
  state :: playerState
  renderedQueue :: "descriptor list list"
  audioRef :: "audio option"
  currentSegmentRef :: nat
  isSeekingRef :: bool
  playlistRef :: "descriptor list option"
  queueRef :: "descriptor list list"
  segmentMapRef :: "segment list"
  virtualTimeRef :: real
  isPlayingRef :: bool
  timers :: "(nat \<times> callback) list"
  promises :: "promise list"
  console :: "string list"

text \<open>
  What a call can throw. \<open>Unmodelled\<close> is not a JavaScript exception: it marks an
  input whose JavaScript meaning (string concatenation in \<open>+\<close>, a numeral that is not
  a plain decimal integer) this model does not cover.
\<close>

datatype error = TypeError | Unmodelled

text \<open>A call either returns the new player or throws, leaving the player as it was then.\<close>

type_synonym outcome = "(error \<times> player) + player"

definition initialState :: playerState where
  "initialState =
     \<lparr> currentPlaylist = None, queue = [], isPlaying = False, isPaused = False,
       currentSegmentIndex = 0, currentTime = 0, mediaDuration = 0, virtualTime = 0,
       totalDuration = 0, isLoading = False, error = None, playbackRate = 1,
       isMinimized = False \<rparr>"

text \<open>\<open>new Audio()\<close>, and the provider after its first render and effects.\<close>

definition newAudio :: audio where
  "newAudio = \<lparr> src = [], audioCurrentTime = 0, paused = True, loadCalls = 0,
                 playCalls = 0, loadedHandlers = [] \<rparr>"

definition mountedPlayer :: player where
  "mountedPlayer =
     \<lparr> state = initialState, renderedQueue = [], audioRef = Some newAudio,
       currentSegmentRef = 0,
       isSeekingRef = False, playlistRef = None, queueRef = [], segmentMapRef = [],
       virtualTimeRef = 0, isPlayingRef = False, timers = [], promises = [],
       console = [] \<rparr>"

definition pauseAudio :: "audio \<Rightarrow> audio" where
  "pauseAudio a = a\<lparr>paused := True\<rparr>"

definition playAudio :: "audio \<Rightarrow> audio" where
  "playAudio a = a\<lparr>paused := False, playCalls := Suc (playCalls a)\<rparr>"

text \<open>\<open>if (audioRef.current) audioRef.current.pause()\<close>\<close>

definition pauseIfAudio :: "player \<Rightarrow> player" where
  "pauseIfAudio p = p\<lparr>audioRef := map_option pauseAudio (audioRef p)\<rparr>"

text \<open>
  A render and the effects that keep the refs in sync after it: \<open>playlistRef\<close>,
  \<open>currentSegmentRef\<close>, the rebuilt segment map with \<open>totalDuration\<close>, and \<open>queueRef\<close>.
\<close>

definition runEffects :: "player \<Rightarrow> player" where
  "runEffects p =
     (let p1 = p\<lparr>playlistRef := currentPlaylist (state p),
                  currentSegmentRef := currentSegmentIndex (state p)\<rparr>;
          p2 = (case currentPlaylist (state p) of
                  None \<Rightarrow> p1
                | Some ds \<Rightarrow>
                    (let segmentMap = buildSegmentMap (Some ds)
                     in p1\<lparr>segmentMapRef := segmentMap,
                           state := (state p1)\<lparr>totalDuration := mapTotalDuration segmentMap\<rparr>\<rparr>))
      in p2\<lparr>queueRef := queue (state p2), renderedQueue := queue (state p2)\<rparr>)"

section \<open>calculateVirtualTime\<close>

definition calculateVirtualTime :: "player \<Rightarrow> real" where
  "calculateVirtualTime p =
     (let segmentMap = segmentMapRef p;
          currentIndex = currentSegmentRef p
      in case audioRef p of
           None \<Rightarrow> 0
         | Some a \<Rightarrow>
             if segmentMap = [] \<or> currentIndex \<ge> length segmentMap then 0
             else (let currentSegment = segmentMap ! currentIndex;
                       realTime = audioCurrentTime a;
                       offset = realTime - startTimestamp currentSegment;
                       vt = virtualStart currentSegment + offset
                   in max 0 vt))"

section \<open>loadSegmentAudio\<close>

text \<open>The argument of \<open>loadSegmentAudio\<close>: a number, or an object.\<close>

datatype segmentOrIndex = Index int | Object descriptor

text \<open>
  \<open>segment.startTimestamp + seekOffset\<close> for a property read from a playlist entry:
  a missing property is \<open>undefined\<close> and the sum \<open>NaN\<close>; \<open>null\<close> counts 0 and a
  boolean 0 or 1; with a string \<open>+\<close> concatenates, which is outside the model (\<open>None\<close>).
\<close>

definition plusOffset :: "jsval option \<Rightarrow> real \<Rightarrow> jsnum option" where
  "plusOffset v seekOffset =
     (case v of
        None \<Rightarrow> Some NaN
      | Some (JNum x) \<Rightarrow> Some (Finite (x + seekOffset))
      | Some (JStr s) \<Rightarrow> None
      | Some (JBool b) \<Rightarrow> Some (Finite ((if b then 1 else 0) + seekOffset))
      | Some JNull \<Rightarrow> Some (Finite seekOffset))"

text \<open>
  The segment the argument stands for, as its \<open>audioUrl\<close> and its target time: an index
  is looked up in the segment map (\<open>None\<close> out of range: the function returns), an
  object is used as it is.
\<close>

definition resolveTarget ::
  "segment list \<Rightarrow> segmentOrIndex \<Rightarrow> real \<Rightarrow> (string \<times> jsnum option) option" where
  "resolveTarget segmentMap segmentOrIndex seekOffset =
     (case segmentOrIndex of
        Index i \<Rightarrow>
          if i < 0 \<or> i \<ge> int (length segmentMap) then None
          else (let s = segmentMap ! nat i
                in Some (audioUrl s, Some (Finite (startTimestamp s + seekOffset))))
      | Object d \<Rightarrow>
          Some (audioUrl d, plusOffset (descriptorProp d ''startTimestamp'') seekOffset))"

text \<open>
  \<open>audio.currentTime = targetTime\<close> throws a \<open>TypeError\<close> when the value is not a
  finite number (the attribute is a WebIDL \<open>double\<close>); the element is then unchanged.
\<close>

definition loadSegmentAudio :: "segmentOrIndex \<Rightarrow> real \<Rightarrow> player \<Rightarrow> outcome" where
  "loadSegmentAudio segmentOrIndex seekOffset p =
     (case audioRef p of
        None \<Rightarrow> Inr p
      | Some a \<Rightarrow>
          (case resolveTarget (segmentMapRef p) segmentOrIndex seekOffset of
             None \<Rightarrow> Inr p
           | Some (url, None) \<Rightarrow> Inl (Unmodelled, p)
           | Some (url, Some targetTime) \<Rightarrow>
               (let needsNewFile = (src a \<noteq> url)
                in if needsNewFile then
                     Inr (p\<lparr>state := (state p)\<lparr>isLoading := True\<rparr>,
                            audioRef := Some (a\<lparr>src := url,
                                                loadCalls := Suc (loadCalls a),
                                                loadedHandlers := loadedHandlers a @ [targetTime]\<rparr>)\<rparr>)
                   else
                     (case targetTime of
                        NaN \<Rightarrow> Inl (TypeError, p)
                      | Finite t \<Rightarrow> Inr (p\<lparr>audioRef := Some (a\<lparr>audioCurrentTime := t\<rparr>)\<rparr>)))))"

text \<open>
  The \<open>loadeddata\<close> event: every registered \<open>handleLoaded\<close> runs in order. One with a
  finite target sets the position and removes itself; one whose target is \<open>NaN\<close>
  throws at the assignment, before it removes itself.
\<close>

definition fireLoadedData :: "player \<Rightarrow> player" where
  "fireLoadedData p =
     (case audioRef p of
        None \<Rightarrow> p
      | Some a \<Rightarrow>
          p\<lparr>audioRef := Some (a\<lparr>
               audioCurrentTime :=
                 foldl (\<lambda>t h. case h of Finite x \<Rightarrow> x | NaN \<Rightarrow> t)
                   (audioCurrentTime a) (loadedHandlers a),
               loadedHandlers := filter (\<lambda>h. h = NaN) (loadedHandlers a)\<rparr>)\<rparr>)"

section \<open>play\<close>

definition play :: "player \<Rightarrow> player" where
  "play p =
     (case audioRef p of
        None \<Rightarrow> p
      | Some a \<Rightarrow> p\<lparr>audioRef := Some (playAudio a), promises := promises p @ [PlayUser]\<rparr>)"

text \<open>The \<open>then\<close> callback of \<open>play\<close>, run when the promise is fulfilled.\<close>

definition playFulfilled :: "player \<Rightarrow> player" where
  "playFulfilled p =
     p\<lparr>isPlayingRef := True,
       state := (state p)\<lparr>isPlaying := True, isPaused := False, error := None\<rparr>,
       promises := remove1 PlayUser (promises p)\<rparr>"

section \<open>handlePlaylistEnd and handleSegmentEnd\<close>

definition handlePlaylistEnd :: "player \<Rightarrow> outcome" where
  "handlePlaylistEnd p0 =
     (let p = p0\<lparr>state := (state p0)\<lparr>isPlaying := False, isPaused := False\<rparr>\<rparr>
      in case queueRef p of
           [] \<Rightarrow> Inr p
         | nextPlaylist # remainingQueue \<Rightarrow>
             (let p1 = p\<lparr>state := (state p)\<lparr>currentPlaylist := Some nextPlaylist,
                                              queue := remainingQueue,
                                              currentSegmentIndex := 0,
                                              currentTime := 0\<rparr>\<rparr>
              in case nextPlaylist of
                   [] \<Rightarrow> Inr p1
                 | d # ds \<Rightarrow>
                     (case loadSegmentAudio (Object d) 0 p1 of
                        Inl e \<Rightarrow> Inl e
                      | Inr p2 \<Rightarrow>
                          (case audioRef p2 of
                             None \<Rightarrow> Inl (TypeError, p2)
                           | Some a \<Rightarrow>
                               Inr (p2\<lparr>audioRef := Some (playAudio a),
                                       promises := promises p2 @ [PlayQueued]\<rparr>)))))"

definition handleSegmentEnd :: "player \<Rightarrow> outcome" where
  "handleSegmentEnd p =
     (let segmentMap = segmentMapRef p;
          currentIndex = currentSegmentRef p;
          wasPlaying = isPlayingRef p
      in if segmentMap = [] then Inr p
         else (let nextIndex = currentIndex + 1
               in if nextIndex < length segmentMap then
                    (let p1 = pauseIfAudio p;
                         p2 = p1\<lparr>state := (state p1)\<lparr>currentSegmentIndex := nextIndex\<rparr>\<rparr>
                     in case loadSegmentAudio (Index (int nextIndex)) 0 p2 of
                          Inl e \<Rightarrow> Inl e
                        | Inr p3 \<Rightarrow>
                            Inr (if wasPlaying
                                 then p3\<lparr>timers := timers p3 @ [(50, TryPlayNext)]\<rparr>
                                 else p3))
                  else handlePlaylistEnd (pauseIfAudio p)))"

section \<open>The timeupdate event\<close>

definition handleTimeUpdate :: "player \<Rightarrow> outcome" where
  "handleTimeUpdate p =
     (case audioRef p of
        None \<Rightarrow> Inr p
      | Some a \<Rightarrow>
          if isSeekingRef p then Inr p
          else (let realTime = audioCurrentTime a;
                    vt = calculateVirtualTime p;
                    p1 = p\<lparr>state := (state p)\<lparr>currentTime := realTime, virtualTime := vt\<rparr>,
                           virtualTimeRef := vt\<rparr>;
                    segmentMap = segmentMapRef p1;
                    currentIndex = currentSegmentRef p1
                in if segmentMap \<noteq> [] \<and> currentIndex < length segmentMap then
                     (if realTime \<ge> endTimestamp (segmentMap ! currentIndex)
                      then handleSegmentEnd p1 else Inr p1)
                   else Inr p1))"

section \<open>loadPlaylist\<close>

text \<open>
  The options after destructuring with their defaults. \<open>position\<close> is a string or a
  number (an integer).
\<close>

datatype position = PosString string | PosNumber int

record options =
  mode :: string
  autoPlay :: bool
  clearQueue :: bool
  position :: position

definition defaultOptions :: options where
  "defaultOptions = \<lparr> mode = ''replace'', autoPlay = False, clearQueue = False,
                        position = PosString ''end'' \<rparr>"

text \<open>
  \<open>xs.splice(start, 0, x)\<close>: a negative \<open>start\<close> counts from the end, and the index is
  clamped to the array.
\<close>

definition splice_insert :: "int \<Rightarrow> 'a \<Rightarrow> 'a list \<Rightarrow> 'a list" where
  "splice_insert start x xs =
     (let len = int (length xs);
          k = nat (if start < 0 then max (len + start) 0 else min start len)
      in take k xs @ [x] @ drop k xs)"

definition loadPlaylist :: "descriptor list option \<Rightarrow> options \<Rightarrow> player \<Rightarrow> outcome" where
  "loadPlaylist playlistData opts p =
     (case playlistData of
        None \<Rightarrow> Inr (p\<lparr>console := console p @ [''Empty playlist provided'']\<rparr>)
      | Some pd \<Rightarrow>
          if pd = [] then Inr (p\<lparr>console := console p @ [''Empty playlist provided'']\<rparr>)
          else if mode opts = ''queue'' then
            (let newQueue0 = (if clearQueue opts then [pd] else queueRef p);
                 newQueue =
                   (case position opts of
                      PosString s \<Rightarrow> if s = ''start'' then pd # newQueue0 else newQueue0 @ [pd]
                    | PosNumber n \<Rightarrow> splice_insert n pd newQueue0)
             in Inr (p\<lparr>state := (state p)\<lparr>queue := newQueue\<rparr>\<rparr>))
          else
            (let p1 = pauseIfAudio p;
                 segmentMap = buildSegmentMap (Some pd);
                 p2 = p1\<lparr>segmentMapRef := segmentMap\<rparr>;
                 p3 = p2\<lparr>state := (state p2)\<lparr>
                        currentPlaylist := Some pd,
                        currentSegmentIndex := 0,
                        currentTime := 0,
                        virtualTime := 0,
                        totalDuration := mapTotalDuration segmentMap,
                        isPlaying := False,
                        isPaused := False,
                        error := None,
                        queue := (if clearQueue opts then [] else renderedQueue p2)\<rparr>\<rparr>
             in if segmentMap = [] then Inr p3
                else (case loadSegmentAudio (Index 0) 0 p3 of
                        Inl e \<Rightarrow> Inl e
                      | Inr p4 \<Rightarrow>
                          Inr (if autoPlay opts
                               then p4\<lparr>timers := timers p4 @ [(100, CallPlay)]\<rparr>
                               else p4))))"

section \<open>seekTo\<close>

text \<open>The \<open>for\<close> loop with its \<open>break\<close>: the first segment that contains the time.\<close>

fun findSegment :: "real \<Rightarrow> nat \<Rightarrow> segment list \<Rightarrow> (segment \<times> nat) option" where
  "findSegment vt i [] = None"
| "findSegment vt i (s # ss) =
     (if vt \<ge> virtualStart s \<and> vt \<le> virtualEnd s then Some (s, i)
      else findSegment vt (Suc i) ss)"

definition seekTarget :: "real \<Rightarrow> segment list \<Rightarrow> segment \<times> nat" where
  "seekTarget vt segmentMap =
     (case findSegment vt 0 segmentMap of
        Some found \<Rightarrow> found
      | None \<Rightarrow>
          if vt < 0 then (hd segmentMap, 0)
          else (last segmentMap, length segmentMap - 1))"

definition seekTo :: "real \<Rightarrow> player \<Rightarrow> outcome" where
  "seekTo vt p =
     (case audioRef p of
        None \<Rightarrow> Inr p
      | Some a \<Rightarrow>
          (let segmentMap = segmentMapRef p
           in if segmentMap = [] then Inr p
              else (let wasPlaying = isPlayingRef p;
                        targetSegment = fst (seekTarget vt segmentMap);
                        targetIndex = snd (seekTarget vt segmentMap);
                        offsetInSegment = vt - virtualStart targetSegment;
                        needsSegmentChange = (targetIndex \<noteq> currentSegmentRef p);
                        p1 = p\<lparr>isSeekingRef := True\<rparr>
                    in if needsSegmentChange then
                         (let p2 = pauseIfAudio p1;
                              p3 = p2\<lparr>state := (state p2)\<lparr>currentSegmentIndex := targetIndex,
                                                               virtualTime := vt\<rparr>\<rparr>
                          in case loadSegmentAudio (Index (int targetIndex)) offsetInSegment p3 of
                               Inl e \<Rightarrow> Inl e
                             | Inr p4 \<Rightarrow>
                                 Inr (p4\<lparr>timers := timers p4
                                          @ (if wasPlaying then [(100, TryPlaySeek)] else [])
                                          @ [(200, ClearSeeking)]\<rparr>))
                       else
                         (let realTime = startTimestamp targetSegment + offsetInSegment;
                              a1 = a\<lparr>audioCurrentTime := realTime\<rparr>;
                              resume = (wasPlaying \<and> paused a1);
                              a2 = (if resume then playAudio a1 else a1)
                          in Inr (p1\<lparr>audioRef := Some a2,
                                     state := (state p1)\<lparr>virtualTime := vt\<rparr>,
                                     virtualTimeRef := vt,
                                     promises := promises p1 @ (if resume then [PlayResume] else []),
                                     timers := timers p1 @ [(200, ClearSeeking)]\<rparr>)))))"

section \<open>getCurrentVerse\<close>

definition getCurrentSegment :: "player \<Rightarrow> segment option" where
  "getCurrentSegment p =
     (let segmentMap = segmentMapRef p;
          currentIndex = currentSegmentRef p
      in if segmentMap = [] \<or> currentIndex \<ge> length segmentMap then None
         else Some (segmentMap ! currentIndex))"

text \<open>
  The character classes of the regular expression
  \<open>/^([A-Z0-9]+)\s+(\d+):(.+)$/i\<close>, on ASCII text (a \<open>string\<close> is a list of bytes).
\<close>

definition isDigit :: "char \<Rightarrow> bool" where
  "isDigit c = (c \<in> set ''0123456789'')"

definition isAlnum :: "char \<Rightarrow> bool" where
  "isAlnum c =
     (c \<in> set ''0123456789ABCDEFGHIJKLMNOPQRSTUVWXYZabcdefghijklmnopqrstuvwxyz'')"

definition isSpace :: "char \<Rightarrow> bool" where
  "isSpace c = (c \<in> set [CHR '' '', CHR 0x09, CHR 0x0A, CHR 0x0B, CHR 0x0C, CHR 0x0D])"

definition isLineTerminator :: "char \<Rightarrow> bool" where
  "isLineTerminator c = (c \<in> set [CHR 0x0A, CHR 0x0D])"

text \<open>
  \<open>reference.match(...)\<close>: the groups (book, chapter, verse specification), or
  \<open>None\<close> for \<open>null\<close>. Each class is disjoint from what must follow it, so the only
  possible match takes the longest run of each class.
\<close>

definition refMatch :: "string \<Rightarrow> (string \<times> string \<times> string) option" where
  "refMatch s =
     (let book = takeWhile isAlnum s;
          r1 = dropWhile isAlnum s;
          spaces = takeWhile isSpace r1;
          r2 = dropWhile isSpace r1;
          chapter = takeWhile isDigit r2;
          r3 = dropWhile isDigit r2
      in if book = [] \<or> spaces = [] \<or> chapter = [] then None
         else (case r3 of
                 [] \<Rightarrow> None
               | c # verseSpec \<Rightarrow>
                   if c = CHR '':'' \<and> verseSpec \<noteq> []
                      \<and> list_all (\<lambda>ch. \<not> isLineTerminator ch) verseSpec
                   then Some (book, chapter, verseSpec)
                   else None))"

text \<open>\<open>s.split(c)\<close> for a separator of one character, and \<open>s.trim()\<close>.\<close>

fun splitOn :: "char \<Rightarrow> string \<Rightarrow> string list" where
  "splitOn c [] = [[]]"
| "splitOn c (x # xs) =
     (if x = c then [] # splitOn c xs
      else (case splitOn c xs of
              [] \<Rightarrow> [[x]]
            | w # ws \<Rightarrow> (x # w) # ws))"

definition trim :: "string \<Rightarrow> string" where
  "trim s = rev (dropWhile isSpace (rev (dropWhile isSpace s)))"

definition digitVal :: "char \<Rightarrow> nat" where
  "digitVal c = of_char c - 48"

text \<open>
  \<open>Number(s)\<close> where it is modelled: white space around the text is ignored, an empty
  text is 0, and a run of at most 15 decimal digits (a value a JavaScript number holds
  exactly) is that integer. Every other text (a sign, a fraction, an exponent, another
  base, \<open>Infinity\<close>, a longer run of digits, text that is no numeral) is outside the
  model: \<open>None\<close>.
\<close>

definition Number_js :: "string \<Rightarrow> nat option" where
  "Number_js s =
     (let t = trim s
      in if t = [] then Some 0
         else if list_all isDigit t \<and> length t \<le> 15 then
           Some (foldl (\<lambda>acc c. 10 * acc + digitVal c) 0 t)
         else None)"

text \<open>
  \<open>const [start, end] = s.split("-").map(Number); for (v = start; v <= end; v++)\<close>.
  It is only called on a text that contains \<open>-\<close>, so the split has two parts at least.
\<close>

definition rangeVerses :: "string \<Rightarrow> nat list option" where
  "rangeVerses s =
     (case splitOn CHR ''-'' s of
        a # b # rest \<Rightarrow>
          (case Number_js a of
             None \<Rightarrow> None
           | Some start \<Rightarrow>
               (case Number_js b of
                  None \<Rightarrow> None
                | Some end' \<Rightarrow> Some [start..<Suc end']))
      | _ \<Rightarrow> Some [])"

fun concatOpt :: "'a list option list \<Rightarrow> 'a list option" where
  "concatOpt [] = Some []"
| "concatOpt (x # xs) =
     (case x of
        None \<Rightarrow> None
      | Some v \<Rightarrow> (case concatOpt xs of None \<Rightarrow> None | Some vs \<Rightarrow> Some (v @ vs)))"

definition singleVerse :: "string \<Rightarrow> nat list option" where
  "singleVerse s = (case Number_js s of None \<Rightarrow> None | Some n \<Rightarrow> Some [n])"

definition parseVerses :: "string \<Rightarrow> nat list option" where
  "parseVerses verseSpec =
     (if CHR '','' \<in> set verseSpec then
        concatOpt
          (map (\<lambda>part. if CHR ''-'' \<in> set part then rangeVerses (trim part)
                        else singleVerse (trim part))
               (splitOn CHR '','' verseSpec))
      else if CHR ''-'' \<in> set verseSpec then rangeVerses verseSpec
      else singleVerse verseSpec)"

text \<open>\<open>timestamps[i + 1] || Infinity\<close>, with \<open>None\<close> for \<open>Infinity\<close>.\<close>

definition verseEndOf :: "real list \<Rightarrow> nat \<Rightarrow> real option" where
  "verseEndOf ts i =
     (case at_index ts (Suc i) of
        None \<Rightarrow> None
      | Some x \<Rightarrow> if x = 0 then None else Some x)"

text \<open>
  \<open>currentTime >= verseStart && currentTime < verseEnd\<close>; a comparison with
  \<open>undefined\<close> is false.
\<close>

definition inVerse :: "real \<Rightarrow> real list \<Rightarrow> nat \<Rightarrow> bool" where
  "inVerse t ts i =
     (case at_index ts i of
        None \<Rightarrow> False
      | Some verseStart \<Rightarrow>
          t \<ge> verseStart \<and> (case verseEndOf ts i of None \<Rightarrow> True | Some verseEnd \<Rightarrow> t < verseEnd))"

text \<open>
  The element of \<open>verses\<close> the function names: the first verse whose interval holds the
  time, else the first verse before the first timestamp, else the last verse.
  \<open>None\<close> is \<open>undefined\<close> (\<open>verses\<close> is empty).
\<close>

definition currentVerseOf :: "real \<Rightarrow> real list \<Rightarrow> nat list \<Rightarrow> nat option" where
  "currentVerseOf t ts verses =
     (case find (inVerse t ts) [0..<length verses] of
        Some i \<Rightarrow> at_index verses i
      | None \<Rightarrow>
          if (case at_index ts 0 of None \<Rightarrow> False | Some t0 \<Rightarrow> t < t0)
          then at_index verses 0
          else at_last verses)"

definition digitChar :: "nat \<Rightarrow> char" where
  "digitChar n = ''0123456789'' ! n"

fun showNat :: "nat \<Rightarrow> string" where
  "showNat n = (if n < 10 then [digitChar n] else showNat (n div 10) @ [digitChar (n mod 10)])"

text \<open>The template \<open>`${book} ${chapter}:${verses[i]}`\<close>.\<close>

definition verseLabel :: "string \<Rightarrow> string \<Rightarrow> nat option \<Rightarrow> string" where
  "verseLabel book chapter v =
     book @ '' '' @ chapter @ '':''
       @ (case v of None \<Rightarrow> ''undefined'' | Some n \<Rightarrow> showNat n)"

text \<open>
  \<open>audioRef.current?.currentTime || 0\<close> is the position of the element, or 0 without
  an element. A missing \<open>reference\<close> makes \<open>segment.reference.match\<close> throw.
\<close>

definition getCurrentVerse :: "player \<Rightarrow> error + string option" where
  "getCurrentVerse p =
     (case getCurrentSegment p of
        None \<Rightarrow> Inr None
      | Some seg \<Rightarrow>
          (case timingData seg of
             None \<Rightarrow> Inr None
           | Some td \<Rightarrow>
               (case timestamps td of
                  None \<Rightarrow> Inr None
                | Some ts \<Rightarrow>
                    (let t = (case audioRef p of None \<Rightarrow> 0 | Some a \<Rightarrow> audioCurrentTime a)
                     in case reference seg of
                          None \<Rightarrow> Inl TypeError
                        | Some r \<Rightarrow>
                            (case refMatch r of
                               None \<Rightarrow> Inr None
                             | Some (book, chapter, verseSpec) \<Rightarrow>
                                 (case parseVerses verseSpec of
                                    None \<Rightarrow> Inl Unmodelled
                                  | Some verses \<Rightarrow>
                                      Inr (Some (verseLabel book chapter
                                                   (currentVerseOf t ts verses)))))))))"

section \<open>Reading an outcome, and events that come from outside\<close>

definition playerOf :: "outcome \<Rightarrow> player" where
  "playerOf r = (case r of Inl (e, p) \<Rightarrow> p | Inr p \<Rightarrow> p)"

definition thrown :: "outcome \<Rightarrow> error option" where
  "thrown r = (case r of Inl (e, p) \<Rightarrow> Some e | Inr p \<Rightarrow> None)"

text \<open>The element's playback position moves to \<open>t\<close> (the media plays, or the browser seeks).\<close>

definition withTime :: "real \<Rightarrow> player \<Rightarrow> player" where
  "withTime t p = p\<lparr>audioRef := map_option (\<lambda>a. a\<lparr>audioCurrentTime := t\<rparr>) (audioRef p)\<rparr>"

text \<open>The timer of \<open>seekTo\<close> fires: \<open>isSeekingRef.current = false\<close>.\<close>

definition runClearSeeking :: "player \<Rightarrow> player" where
  "runClearSeeking p =
     p\<lparr>isSeekingRef := False, timers := remove1 (200, ClearSeeking) (timers p)\<rparr>"

section \<open>Example playlists and players\<close>

text \<open>
  A playlist entry as \<open>StoryViewer\<close> builds it: a reference, timing data for it, and the
  section number as metadata. \<open>untimed\<close> is an entry whose audio has no timing data.
\<close>

definition entry :: "string \<Rightarrow> string \<Rightarrow> real list \<Rightarrow> descriptor" where
  "entry url r ts =
     \<lparr> audioUrl = url,
       timingData = Some \<lparr> timingReference = r, timestamps = Some ts \<rparr>,
       reference = Some r,
       meta = [(''sectionNum'', JNum 1)] \<rparr>"

definition untimed :: "string \<Rightarrow> string \<Rightarrow> descriptor" where
  "untimed url r =
     \<lparr> audioUrl = url, timingData = None, reference = Some r,
       meta = [(''sectionNum'', JNum 2)] \<rparr>"

definition examplePlaylist :: "descriptor list" where
  "examplePlaylist =
     [entry ''https://cdn.example/JHN_003.mp3'' ''JHN 3:1-3'' [0, 2, 5, 9],
      untimed ''https://cdn.example/JHN_003.mp3'' ''JHN 3:4'',
      entry ''https://cdn.example/JHN_004.mp3'' ''JHN 4:1-2'' [3, 5, 7.5]]"

text \<open>An entry that carries its own ordinal under the name \<open>index\<close>.\<close>

definition numberedEntry :: descriptor where
  "numberedEntry =
     \<lparr> audioUrl = ''https://cdn.example/JHN_003.mp3'', timingData = None,
       reference = Some ''JHN 3:16'',
       meta = [(''index'', JNum 7), (''sectionNum'', JNum 7)] \<rparr>"

text \<open>
  The provider after \<open>loadPlaylist(pl)\<close> with the default options, the effects of the
  next render, and the \<open>loadeddata\<close> event of the first file.
\<close>

definition loaded :: "descriptor list \<Rightarrow> player" where
  "loaded pl =
     fireLoadedData (runEffects (playerOf (loadPlaylist (Some pl) defaultOptions mountedPlayer)))"

text \<open>The options of a call in queue mode.\<close>

definition queueOptions :: options where
  "queueOptions = defaultOptions\<lparr>mode := ''queue''\<rparr>"

text \<open>
  Playlists over one chapter file: its first verses, the verses after them, both in one
  playlist, and a playlist from another file.
\<close>

definition chapterUrl :: string where
  "chapterUrl = ''https://cdn.example/JHN_003.mp3''"

definition firstPart :: "descriptor list" where
  "firstPart = [entry chapterUrl ''JHN 3:1-3'' [0, 2, 5, 9]]"

definition secondPart :: "descriptor list" where
  "secondPart = [entry chapterUrl ''JHN 3:4-5'' [9, 12, 16]]"

definition otherChapter :: "descriptor list" where
  "otherChapter = [entry ''https://cdn.example/JHN_004.mp3'' ''JHN 4:1-2'' [3, 5, 7.5]]"

definition chapterPlaylist :: "descriptor list" where
  "chapterPlaylist = firstPart @ secondPart"

text \<open>One segment that starts 10 seconds into its file and lasts 10 seconds.\<close>

definition seekPlaylist :: "descriptor list" where
  "seekPlaylist = [entry chapterUrl ''JHN 3:1-3'' [10, 12, 15, 20]]"

text \<open>One segment with the markers 0, 2, 5, 9 under a given label.\<close>

definition markerPlaylist :: "string \<Rightarrow> descriptor list" where
  "markerPlaylist label = [entry chapterUrl label [0, 2, 5, 9]]"

text \<open>A loaded playlist after \<open>play()\<close> and the fulfilment of its promise.\<close>

definition playing :: "descriptor list \<Rightarrow> player" where
  "playing pl = playFulfilled (play (loaded pl))"

text \<open>
  \<open>firstPart\<close> is playing and has reached its end (9 seconds) with playlist \<open>b\<close>
  queued by \<open>loadPlaylist(b, {mode: "queue"})\<close>.
\<close>

definition queuedPlayer :: "descriptor list \<Rightarrow> player" where
  "queuedPlayer b =
     withTime 9 (runEffects (playerOf
       (loadPlaylist (Some b) queueOptions (playing firstPart))))"

text \<open>
  \<open>examplePlaylist\<close> after \<open>seekTo(10)\<close>, which makes its third segment the active one
  (\<open>virtualStart\<close> 9, \<open>startTimestamp\<close> 3), with the element at position 1.
\<close>

definition midMapPlayer :: player where
  "midMapPlayer = withTime 1 (runEffects (playerOf (seekTo 10 (loaded examplePlaylist))))"

section \<open>Properties of the segment map\<close>

lemma length_buildFrom: "length (buildFrom i c ds) = length ds"
  by (induction ds arbitrary: i c) simp_all

lemma length_buildSegmentMap: "length (buildSegmentMap (Some ds)) = length ds"
  by (simp add: buildSegmentMap_def length_buildFrom)

lemma buildFrom_virtualStart_hd:
  "ds \<noteq> [] \<Longrightarrow> virtualStart (buildFrom i c ds ! 0) = c"
  by (cases ds) (simp_all add: enhance_def Let_def)

lemma buildFrom_contiguous:
  "Suc k < length ds \<Longrightarrow>
     virtualEnd (buildFrom i c ds ! k) = virtualStart (buildFrom i c ds ! Suc k)"
proof (induction ds arbitrary: i c k)
  case Nil
  then show ?case by simp
next
  case (Cons d ds)
  show ?case
  proof (cases k)
    case 0
    from Cons.prems 0 have "ds \<noteq> []" by auto
    then have "virtualStart (buildFrom (Suc i) (c + segmentDurationOf (timestampsOf d)) ds ! 0)
                 = c + segmentDurationOf (timestampsOf d)"
      by (rule buildFrom_virtualStart_hd)
    with 0 show ?thesis by (simp add: enhance_def Let_def)
  next
    case (Suc j)
    with Cons.prems have "Suc j < length ds" by simp
    from Cons.IH [OF this] Suc show ?thesis by simp
  qed
qed

lemma buildFrom_nth:
  "k < length ds \<Longrightarrow>
     \<exists>c'. buildFrom i c ds ! k = enhance (i + k) c' (ds ! k)"
proof (induction ds arbitrary: i c k)
  case Nil
  then show ?case by simp
next
  case (Cons d ds)
  show ?case
  proof (cases k)
    case 0
    then show ?thesis by auto
  next
    case (Suc j)
    with Cons.prems have "j < length ds" by simp
    from Cons.IH [OF this, of "Suc i" "c + segmentDurationOf (timestampsOf d)"] Suc
    show ?thesis by auto
  qed
qed

lemma buildSegmentMap_nth:
  assumes "k < length ds"
  shows "\<exists>c'. buildSegmentMap (Some ds) ! k = enhance k c' (ds ! k)"
proof -
  from assms have "ds \<noteq> []" by auto
  with buildFrom_nth [OF assms, of 0 0] show ?thesis
    by (simp add: buildSegmentMap_def)
qed

section \<open>C3: the segment map is contiguous\<close>

text \<open>
  C3. For every input playlist (a missing one included) the built map is contiguous on
  the virtual axis: the \<open>virtualEnd\<close> of a segment is the \<open>virtualStart\<close> of its
  successor, every \<open>virtualEnd\<close> is \<open>virtualStart + duration\<close>, and a segment whose entry
  has fewer than two timestamps has duration 0.
\<close>

theorem buildSegmentMap_contiguous:
  "(\<forall>i. Suc i < length (buildSegmentMap playlist) \<longrightarrow>
        virtualEnd (buildSegmentMap playlist ! i)
          = virtualStart (buildSegmentMap playlist ! Suc i))
   \<and> (\<forall>i. i < length (buildSegmentMap playlist) \<longrightarrow>
        virtualEnd (buildSegmentMap playlist ! i)
          = virtualStart (buildSegmentMap playlist ! i) + duration (buildSegmentMap playlist ! i))
   \<and> (\<forall>ds i. playlist = Some ds \<longrightarrow> i < length ds \<longrightarrow> length (timestampsOf (ds ! i)) < 2 \<longrightarrow>
        duration (buildSegmentMap playlist ! i) = 0)"
proof (cases playlist)
  case None
  then show ?thesis by (simp add: buildSegmentMap_def)
next
  case (Some ds)
  have len: "length (buildSegmentMap (Some ds)) = length ds"
    by (rule length_buildSegmentMap)
  have a: "virtualEnd (buildSegmentMap (Some ds) ! i) = virtualStart (buildSegmentMap (Some ds) ! Suc i)"
    if "Suc i < length ds" for i
  proof -
    from that have "ds \<noteq> []" by auto
    with buildFrom_contiguous [OF that, of 0 0] show ?thesis
      by (simp add: buildSegmentMap_def)
  qed
  have b: "virtualEnd (buildSegmentMap (Some ds) ! i)
             = virtualStart (buildSegmentMap (Some ds) ! i) + duration (buildSegmentMap (Some ds) ! i)"
    if "i < length ds" for i
  proof -
    from buildSegmentMap_nth [OF that] obtain c'
      where "buildSegmentMap (Some ds) ! i = enhance i c' (ds ! i)" ..
    then show ?thesis by (simp add: enhance_def Let_def)
  qed
  have c: "duration (buildSegmentMap (Some ds) ! i) = 0"
    if "i < length ds" and "length (timestampsOf (ds ! i)) < 2" for i
  proof -
    from buildSegmentMap_nth [OF that(1)] obtain c'
      where "buildSegmentMap (Some ds) ! i = enhance i c' (ds ! i)" ..
    with that(2) show ?thesis by (simp add: enhance_def Let_def segmentDurationOf_def)
  qed
  from a b c len Some show ?thesis by simp
qed

theorem buildSegmentMap_contiguous_witness:
  "Suc 1 < length (buildSegmentMap (Some examplePlaylist))
   \<and> virtualEnd (buildSegmentMap (Some examplePlaylist) ! 1)
       = virtualStart (buildSegmentMap (Some examplePlaylist) ! Suc 1)
   \<and> virtualEnd (buildSegmentMap (Some examplePlaylist) ! 1)
       = virtualStart (buildSegmentMap (Some examplePlaylist) ! 1)
         + duration (buildSegmentMap (Some examplePlaylist) ! 1)
   \<and> length (timestampsOf (examplePlaylist ! 1)) < 2
   \<and> duration (buildSegmentMap (Some examplePlaylist) ! 1) = 0"
proof -
  have len: "length (buildSegmentMap (Some examplePlaylist)) = 3"
    by (simp add: length_buildSegmentMap examplePlaylist_def)
  have len': "length examplePlaylist = 3"
    by (simp add: examplePlaylist_def)
  have ts: "length (timestampsOf (examplePlaylist ! 1)) < 2"
    by (simp add: examplePlaylist_def untimed_def timestampsOf_def)
  note inst = buildSegmentMap_contiguous [of "Some examplePlaylist"]
  from inst have "Suc 1 < length (buildSegmentMap (Some examplePlaylist)) \<longrightarrow>
      virtualEnd (buildSegmentMap (Some examplePlaylist) ! 1)
        = virtualStart (buildSegmentMap (Some examplePlaylist) ! Suc 1)"
    by blast
  moreover from inst have "1 < length (buildSegmentMap (Some examplePlaylist)) \<longrightarrow>
      virtualEnd (buildSegmentMap (Some examplePlaylist) ! 1)
        = virtualStart (buildSegmentMap (Some examplePlaylist) ! 1)
          + duration (buildSegmentMap (Some examplePlaylist) ! 1)"
    by blast
  moreover from inst have "1 < length examplePlaylist \<longrightarrow>
      length (timestampsOf (examplePlaylist ! 1)) < 2 \<longrightarrow>
      duration (buildSegmentMap (Some examplePlaylist) ! 1) = 0"
    by blast
  ultimately show ?thesis using len len' ts by simp
qed

section \<open>C9: what the map keeps of a playlist entry\<close>

text \<open>
  C9, as stated, fails: an ordinal that the entry carries under the name \<open>index\<close> is
  not kept. \<open>numberedEntry\<close> carries \<open>index: 7\<close>; in the map its \<open>index\<close> is its position.
\<close>

theorem passthrough_index_counterexample:
  "segmentProp (buildSegmentMap (Some [numberedEntry]) ! 0) ''index''
     \<noteq> descriptorProp numberedEntry ''index''"
  by (simp add: buildSegmentMap_def enhance_def Let_def segmentProp_def descriptorProp_def
      numberedEntry_def)

text \<open>
  C9, amended. For every entry of the playlist, every property whose name is not one
  of \<open>index\<close>, \<open>startTimestamp\<close>, \<open>endTimestamp\<close>, \<open>duration\<close>, \<open>virtualStart\<close>,
  \<open>virtualEnd\<close> has the same value on the segment of the map, and so have \<open>audioUrl\<close>,
  \<open>timingData\<close> and \<open>reference\<close>; the segment's \<open>index\<close> is its position in the playlist.
\<close>

theorem passthrough_preserved:
  assumes "i < length ds" and "k \<notin> set computedKeys"
  shows "segmentProp (buildSegmentMap (Some ds) ! i) k = descriptorProp (ds ! i) k
         \<and> audioUrl (buildSegmentMap (Some ds) ! i) = audioUrl (ds ! i)
         \<and> timingData (buildSegmentMap (Some ds) ! i) = timingData (ds ! i)
         \<and> reference (buildSegmentMap (Some ds) ! i) = reference (ds ! i)
         \<and> segmentProp (buildSegmentMap (Some ds) ! i) ''index'' = Some (JNum (real i))"
proof -
  from buildSegmentMap_nth [OF assms(1)] obtain c'
    where "buildSegmentMap (Some ds) ! i = enhance i c' (ds ! i)" ..
  with assms(2) show ?thesis
    by (simp add: enhance_def Let_def segmentProp_def descriptorProp_def computedKeys_def)
qed

theorem passthrough_preserved_witness:
  "(0::nat) < length [numberedEntry] \<and> ''sectionNum'' \<notin> set computedKeys
   \<and> segmentProp (buildSegmentMap (Some [numberedEntry]) ! 0) ''sectionNum'' = Some (JNum 7)
   \<and> segmentProp (buildSegmentMap (Some [numberedEntry]) ! 0) ''index'' = Some (JNum 0)"
proof -
  have k: "''sectionNum'' \<notin> set computedKeys"
    by (simp add: computedKeys_def)
  have d: "descriptorProp ([numberedEntry] ! 0) ''sectionNum'' = Some (JNum 7)"
    by (simp add: descriptorProp_def numberedEntry_def)
  from passthrough_preserved [of 0 "[numberedEntry]" "''sectionNum''"] k d
  show ?thesis by simp
qed

section \<open>C2: the virtual time of a time update\<close>

text \<open>
  C2, as stated, fails: the source clamps the sum \<open>virtualStart + (r - startTimestamp)\<close>
  at 0, not the offset. In \<open>midMapPlayer\<close> the active segment has \<open>virtualStart\<close> 9 and
  \<open>startTimestamp\<close> 3 and the element is at 1: the source computes 7, the claim 9.
\<close>

theorem virtualTime_formula_counterexample:
  "currentSegmentRef midMapPlayer < length (segmentMapRef midMapPlayer)
   \<and> map_option audioCurrentTime (audioRef midMapPlayer) = Some 1
   \<and> calculateVirtualTime midMapPlayer = 7
   \<and> calculateVirtualTime midMapPlayer
       \<noteq> virtualStart (segmentMapRef midMapPlayer ! currentSegmentRef midMapPlayer)
          + max 0 (1 - startTimestamp (segmentMapRef midMapPlayer ! currentSegmentRef midMapPlayer))"
  by code_simp

text \<open>
  C2, amended. For every active segment \<open>s\<close> and real time \<open>r\<close> of the element, the
  computed virtual time is \<open>max 0 (virtualStart s + (r - startTimestamp s))\<close>; it is
  never negative; and it equals \<open>virtualStart s + max 0 (r - startTimestamp s)\<close>
  whenever \<open>r\<close> is not below \<open>startTimestamp s\<close> and \<open>virtualStart s\<close> is not negative.
\<close>

theorem calculateVirtualTime_clamps_sum:
  assumes "audioRef p = Some a"
      and "currentSegmentRef p < length (segmentMapRef p)"
  shows "calculateVirtualTime p
           = max 0 (virtualStart (segmentMapRef p ! currentSegmentRef p)
                    + (audioCurrentTime a - startTimestamp (segmentMapRef p ! currentSegmentRef p)))
         \<and> 0 \<le> calculateVirtualTime p
         \<and> (startTimestamp (segmentMapRef p ! currentSegmentRef p) \<le> audioCurrentTime a
              \<and> 0 \<le> virtualStart (segmentMapRef p ! currentSegmentRef p)
            \<longrightarrow> calculateVirtualTime p
                  = virtualStart (segmentMapRef p ! currentSegmentRef p)
                    + max 0 (audioCurrentTime a - startTimestamp (segmentMapRef p ! currentSegmentRef p)))"
  using assms by (auto simp: calculateVirtualTime_def Let_def)

theorem calculateVirtualTime_clamps_sum_witness:
  "audioRef midMapPlayer
     = Some \<lparr> src = ''https://cdn.example/JHN_004.mp3'', audioCurrentTime = 1, paused = True,
              loadCalls = 2, playCalls = 0, loadedHandlers = [Finite 4] \<rparr>
   \<and> currentSegmentRef midMapPlayer < length (segmentMapRef midMapPlayer)
   \<and> calculateVirtualTime midMapPlayer
       = max 0 (virtualStart (segmentMapRef midMapPlayer ! currentSegmentRef midMapPlayer)
                + (1 - startTimestamp (segmentMapRef midMapPlayer ! currentSegmentRef midMapPlayer)))
   \<and> 0 \<le> calculateVirtualTime midMapPlayer"
proof -
  have h1: "audioRef midMapPlayer
     = Some \<lparr> src = ''https://cdn.example/JHN_004.mp3'', audioCurrentTime = 1, paused = True,
              loadCalls = 2, playCalls = 0, loadedHandlers = [Finite 4] \<rparr>"
    by code_simp
  have h2: "currentSegmentRef midMapPlayer < length (segmentMapRef midMapPlayer)"
    by code_simp
  from calculateVirtualTime_clamps_sum [OF h1 h2] h1 h2 show ?thesis
    by simp
qed

section \<open>C8: an empty or missing playlist\<close>

text \<open>
  C8. \<open>loadPlaylist\<close> with a missing or an empty playlist, whatever the options, returns
  with the warning on the console and nothing else changed: the state, the refs, the
  audio element and the pending work are those of before.
\<close>

theorem loadPlaylist_empty_noop:
  "loadPlaylist None opts p = Inr (p\<lparr>console := console p @ [''Empty playlist provided'']\<rparr>)
   \<and> loadPlaylist (Some []) opts p
        = Inr (p\<lparr>console := console p @ [''Empty playlist provided'']\<rparr>)"
  by (simp add: loadPlaylist_def)

section \<open>C10: queue mode only writes the queue\<close>

text \<open>
  C10. A call of \<open>loadPlaylist\<close> in queue mode returns; the audio element is the one of
  before (not paused, reloaded or repositioned); of the state only \<open>queue\<close> may differ;
  the refs and the pending work are unchanged (the console may hold the warning of an
  empty playlist).
\<close>

theorem loadPlaylist_queue_frame:
  assumes "mode opts = ''queue''"
  shows "\<exists>p'. loadPlaylist playlistData opts p = Inr p'
           \<and> audioRef p' = audioRef p
           \<and> state p' = (state p)\<lparr>queue := queue (state p')\<rparr>
           \<and> p' = p\<lparr>state := state p', console := console p'\<rparr>"
  using assms by (auto simp: loadPlaylist_def Let_def split: option.splits position.splits)

theorem loadPlaylist_queue_frame_witness:
  "mode queueOptions = ''queue''
   \<and> thrown (loadPlaylist (Some secondPart) queueOptions (playing firstPart)) = None
   \<and> audioRef (playerOf (loadPlaylist (Some secondPart) queueOptions (playing firstPart)))
       = audioRef (playing firstPart)
   \<and> state (playerOf (loadPlaylist (Some secondPart) queueOptions (playing firstPart)))
       = (state (playing firstPart))\<lparr>queue := [secondPart]\<rparr>"
proof -
  have h: "mode queueOptions = ''queue''"
    by (simp add: queueOptions_def defaultOptions_def)
  have q: "queue (state (playerOf (loadPlaylist (Some secondPart) queueOptions (playing firstPart))))
             = [secondPart]"
    by code_simp
  from loadPlaylist_queue_frame [OF h, of "Some secondPart" "playing firstPart"]
  obtain p' where r: "loadPlaylist (Some secondPart) queueOptions (playing firstPart) = Inr p'"
    and a: "audioRef p' = audioRef (playing firstPart)"
    and s: "state p' = (state (playing firstPart))\<lparr>queue := queue (state p')\<rparr>"
    by blast
  from r q have "queue (state p') = [secondPart]"
    by (simp add: playerOf_def)
  with r a s h show ?thesis
    by (simp add: playerOf_def thrown_def)
qed

section \<open>C4: what queue mode puts into the queue\<close>

lemma splice_insert_single: "splice_insert n x [x] = [x, x]"
proof -
  have "n < 0 \<or> n = 0 \<or> 1 \<le> n" by linarith
  then show ?thesis
  proof (elim disjE)
    assume "n < 0"
    then have "max (1 + n) 0 = 0" by simp
    with \<open>n < 0\<close> show ?thesis by (simp add: splice_insert_def Let_def)
  next
    assume "n = 0"
    then show ?thesis by (simp add: splice_insert_def Let_def)
  next
    assume "1 \<le> n"
    then have "min n 1 = 1" by simp
    with \<open>1 \<le> n\<close> show ?thesis by (simp add: splice_insert_def Let_def)
  qed
qed

lemma splice_insert_in_range:
  "0 \<le> n \<Longrightarrow> n \<le> int (length xs) \<Longrightarrow>
     splice_insert n x xs = take (nat n) xs @ x # drop (nat n) xs"
  by (simp add: splice_insert_def Let_def)

text \<open>
  Without \<open>clearQueue\<close> the entries go once into the queue that was there: first for
  \<open>"start"\<close>, by \<open>splice\<close> for a number, last otherwise.
\<close>

lemma loadPlaylist_queue_keep:
  assumes "pd \<noteq> []" and "mode opts = ''queue''" and "\<not> clearQueue opts"
  shows "loadPlaylist (Some pd) opts p
           = Inr (p\<lparr>state := (state p)\<lparr>queue :=
                (case position opts of
                   PosString s \<Rightarrow> if s = ''start'' then pd # queueRef p else queueRef p @ [pd]
                 | PosNumber n \<Rightarrow> splice_insert n pd (queueRef p))\<rparr>\<rparr>)"
  using assms by (simp add: loadPlaylist_def Let_def)

text \<open>
  With \<open>clearQueue\<close> the new queue starts as \<open>[playlistData]\<close> and the entries are then
  inserted into it: whatever the position, the queue holds them twice.
\<close>

lemma loadPlaylist_queue_clear_twice:
  assumes "pd \<noteq> []" and "mode opts = ''queue''" and "clearQueue opts"
  shows "loadPlaylist (Some pd) opts p = Inr (p\<lparr>state := (state p)\<lparr>queue := [pd, pd]\<rparr>\<rparr>)"
  using assms
  by (auto simp: loadPlaylist_def Let_def splice_insert_single split: position.splits)

text \<open>
  C4 fails in the source where \<open>clearQueue\<close> is true: after
  \<open>loadPlaylist(secondPart, {mode: "queue", clearQueue: true})\<close> the queue is
  \<open>[secondPart, secondPart]\<close>, not \<open>[secondPart]\<close>.
\<close>

theorem loadPlaylist_clearQueue_enqueues_twice:
  "thrown (loadPlaylist (Some secondPart) (queueOptions\<lparr>clearQueue := True\<rparr>)
             (playing firstPart)) = None
   \<and> queue (state (playerOf (loadPlaylist (Some secondPart) (queueOptions\<lparr>clearQueue := True\<rparr>)
             (playing firstPart))))
       = [secondPart, secondPart]"
  by code_simp

section \<open>C5: advancing within one file\<close>

lemma loadSegmentAudio_same_file:
  assumes "audioRef p = Some a" and "k < length (segmentMapRef p)"
      and "src a = audioUrl (segmentMapRef p ! k)"
  shows "loadSegmentAudio (Index (int k)) off p
           = Inr (p\<lparr>audioRef := Some (a\<lparr>audioCurrentTime := startTimestamp (segmentMapRef p ! k) + off\<rparr>)\<rparr>)"
  using assms by (simp add: loadSegmentAudio_def resolveTarget_def Let_def)

text \<open>
  C5. When the active segment and its successor have the same \<open>audioUrl\<close>, which is the
  \<open>src\<close> of the element, the end of the active segment returns with the successor as
  the current segment; the element keeps its \<open>src\<close>, \<open>load()\<close> is not called and no
  \<open>loadeddata\<close> listener is added: the element is the one of before, paused by the
  handler and with its position at the successor's \<open>startTimestamp\<close>. Of the state only
  \<open>currentSegmentIndex\<close> changes (\<open>isLoading\<close> is not set).
\<close>

theorem advance_same_url_no_reload:
  assumes "audioRef p = Some a"
      and "Suc (currentSegmentRef p) < length (segmentMapRef p)"
      and "audioUrl (segmentMapRef p ! currentSegmentRef p)
             = audioUrl (segmentMapRef p ! Suc (currentSegmentRef p))"
      and "src a = audioUrl (segmentMapRef p ! currentSegmentRef p)"
  shows "\<exists>p'. handleSegmentEnd p = Inr p'
           \<and> audioRef p' = Some (a\<lparr>paused := True,
                  audioCurrentTime := startTimestamp (segmentMapRef p ! Suc (currentSegmentRef p))\<rparr>)
           \<and> state p' = (state p)\<lparr>currentSegmentIndex := Suc (currentSegmentRef p)\<rparr>"
proof -
  let ?k = "Suc (currentSegmentRef p)"
  let ?p2 = "(pauseIfAudio p)\<lparr>state := (state (pauseIfAudio p))\<lparr>currentSegmentIndex := ?k\<rparr>\<rparr>"
  have a2: "audioRef ?p2 = Some (pauseAudio a)"
    using assms(1) by (simp add: pauseIfAudio_def)
  have s2: "src (pauseAudio a) = audioUrl (segmentMapRef ?p2 ! ?k)"
    using assms(3,4) by (simp add: pauseAudio_def pauseIfAudio_def)
  have k2: "?k < length (segmentMapRef ?p2)"
    using assms(2) by (simp add: pauseIfAudio_def)
  have load: "loadSegmentAudio (Index (int ?k)) 0 ?p2
      = Inr (?p2\<lparr>audioRef := Some ((pauseAudio a)\<lparr>audioCurrentTime :=
            startTimestamp (segmentMapRef ?p2 ! ?k) + 0\<rparr>)\<rparr>)"
    by (rule loadSegmentAudio_same_file [OF a2 k2 s2])
  have ne: "segmentMapRef p \<noteq> []"
    using assms(2) by auto
  show ?thesis
    using assms(2) ne load
    by (cases "isPlayingRef p")
       (simp_all add: handleSegmentEnd_def Let_def pauseIfAudio_def pauseAudio_def)
qed

theorem advance_same_url_no_reload_witness:
  "\<exists>p'. handleSegmentEnd (withTime 9 (playing chapterPlaylist)) = Inr p'
     \<and> audioRef p' = Some \<lparr> src = chapterUrl, audioCurrentTime = 9, paused = True,
            loadCalls = 1, playCalls = 1, loadedHandlers = [] \<rparr>
     \<and> currentSegmentIndex (state p') = 1"
proof -
  let ?p = "withTime 9 (playing chapterPlaylist)"
  let ?a = "\<lparr> src = chapterUrl, audioCurrentTime = 9, paused = False, loadCalls = 1,
            playCalls = 1, loadedHandlers = [] \<rparr>"
  have h1: "audioRef ?p = Some ?a" by code_simp
  have h2: "Suc (currentSegmentRef ?p) < length (segmentMapRef ?p)" by code_simp
  have h3: "audioUrl (segmentMapRef ?p ! currentSegmentRef ?p)
             = audioUrl (segmentMapRef ?p ! Suc (currentSegmentRef ?p))" by code_simp
  have h4: "src ?a = audioUrl (segmentMapRef ?p ! currentSegmentRef ?p)" by code_simp
  have s: "startTimestamp (segmentMapRef ?p ! Suc (currentSegmentRef ?p)) = 9" by code_simp
  have c: "currentSegmentRef ?p = 0" by code_simp
  from advance_same_url_no_reload [OF h1 h2 h3 h4] s c show ?thesis by auto
qed

section \<open>C6: the end of the playlist with a queued playlist\<close>

text \<open>
  \<open>handlePlaylistEnd\<close> hands \<open>loadSegmentAudio\<close> the playlist entry itself, which has no
  \<open>startTimestamp\<close>: the target time is \<open>NaN\<close>. When the entry's file is the one the
  element holds, the assignment of the position throws and \<open>play()\<close> is never reached.
\<close>

lemma queued_same_file_throws:
  assumes "audioRef p = Some a" and "queueRef p = (d # ds) # rest"
      and "src a = audioUrl d" and "descriptorProp d ''startTimestamp'' = None"
  shows "handlePlaylistEnd p
           = Inl (TypeError,
                  p\<lparr>state := (state p)\<lparr>isPlaying := False, isPaused := False,
                        currentPlaylist := Some (d # ds), queue := rest,
                        currentSegmentIndex := 0, currentTime := 0\<rparr>\<rparr>)"
  using assms
  by (simp add: handlePlaylistEnd_def loadSegmentAudio_def resolveTarget_def plusOffset_def Let_def)

text \<open>
  When the queued playlist starts in another file, the file is loaded and \<open>play()\<close> is
  called, but the \<open>loadeddata\<close> listener holds \<open>NaN\<close>: the position is never set to the
  start of the first segment (here it stays where the element was).
\<close>

lemma queued_other_file_unpositioned:
  "thrown (handleTimeUpdate (queuedPlayer otherChapter)) = None
   \<and> map_option playCalls (audioRef (playerOf (handleTimeUpdate (queuedPlayer otherChapter))))
       = Some 2
   \<and> map_option loadedHandlers (audioRef (playerOf (handleTimeUpdate (queuedPlayer otherChapter))))
       = Some [NaN]
   \<and> map_option audioCurrentTime
        (audioRef (fireLoadedData (playerOf (handleTimeUpdate (queuedPlayer otherChapter)))))
       = Some 9"
  by code_simp

text \<open>
  C6 fails in the source when the queued playlist starts in the file that is playing.
  \<open>firstPart\<close> plays to its end with \<open>secondPart\<close> (same file) queued: the time update
  at the end throws a \<open>TypeError\<close>; the queued playlist has become the current one and
  the queue is empty, but the element is left paused and \<open>play()\<close> was not called again.
\<close>

theorem queued_playlist_same_file_not_played:
  "queueRef (queuedPlayer secondPart) = [secondPart]
   \<and> thrown (handleTimeUpdate (queuedPlayer secondPart)) = Some TypeError
   \<and> map_option playCalls (audioRef (queuedPlayer secondPart)) = Some 1
   \<and> map_option playCalls (audioRef (playerOf (handleTimeUpdate (queuedPlayer secondPart))))
       = Some 1
   \<and> map_option paused (audioRef (playerOf (handleTimeUpdate (queuedPlayer secondPart))))
       = Some True
   \<and> currentPlaylist (state (playerOf (handleTimeUpdate (queuedPlayer secondPart))))
       = Some secondPart
   \<and> queue (state (playerOf (handleTimeUpdate (queuedPlayer secondPart)))) = []"
  by code_simp

section \<open>C7: the verse at a time\<close>

text \<open>
  C7, as stated, fails: the label \<open>JHN 3\<close> has no \<open>:\<close> and verse part, the regular
  expression does not match it, and the function returns \<open>null\<close> at every time.
\<close>

theorem getCurrentVerse_chapter_label_counterexample:
  "getCurrentVerse (withTime 3.4 (loaded (markerPlaylist ''JHN 3''))) = Inr None
   \<and> getCurrentVerse (withTime (-1) (loaded (markerPlaylist ''JHN 3''))) = Inr None
   \<and> getCurrentVerse (withTime 100 (loaded (markerPlaylist ''JHN 3''))) = Inr None"
  by code_simp

text \<open>
  With the element at time \<open>t\<close>, the function only looks at the active segment's
  timestamps and reference.
\<close>

lemma getCurrentVerse_withTime:
  assumes "getCurrentSegment p = Some seg" and "timingData seg = Some td"
      and "timestamps td = Some ts" and "reference seg = Some r" and "audioRef p = Some a"
  shows "getCurrentVerse (withTime t p)
           = (case refMatch r of
                None \<Rightarrow> Inr None
              | Some (book, chapter, verseSpec) \<Rightarrow>
                  (case parseVerses verseSpec of
                     None \<Rightarrow> Inl Unmodelled
                   | Some verses \<Rightarrow>
                       Inr (Some (verseLabel book chapter (currentVerseOf t ts verses)))))"
proof -
  have "getCurrentSegment (withTime t p) = Some seg"
    using assms(1) by (simp add: getCurrentSegment_def withTime_def)
  moreover have "audioRef (withTime t p) = Some (a\<lparr>audioCurrentTime := t\<rparr>)"
    using assms(5) by (simp add: withTime_def)
  ultimately show ?thesis
    using assms(2,3,4) by (simp add: getCurrentVerse_def)
qed

text \<open>
  Three verses on the markers 0, 2, 5, 9: the first verse up to 2 (also before 0), the
  second up to 5, the third from 5 on (also from 9 on, after the last marker).
\<close>

lemma currentVerseOf_markers:
  "currentVerseOf t [0, 2, 5, 9] [1, 2, 3]
     = Some (if t < 2 then 1 else if t < 5 then 2 else 3)"
  by (simp add: currentVerseOf_def inVerse_def verseEndOf_def at_index_def at_last_def
      upt_rec [of 0] upt_rec [of 1] upt_rec [of 2] upt_rec [of 3]
      numeral_2_eq_2 numeral_3_eq_3)

lemma marker_segment:
  "getCurrentSegment (loaded (markerPlaylist r))
     = Some (the (getCurrentSegment (loaded (markerPlaylist r))))
   \<and> timingData (the (getCurrentSegment (loaded (markerPlaylist r))))
       = Some \<lparr> timingReference = r, timestamps = Some [0, 2, 5, 9] \<rparr>
   \<and> reference (the (getCurrentSegment (loaded (markerPlaylist r)))) = Some r
   \<and> audioRef (loaded (markerPlaylist r)) = Some (the (audioRef (loaded (markerPlaylist r))))"
  by (simp add: loaded_def markerPlaylist_def entry_def loadPlaylist_def defaultOptions_def
      mountedPlayer_def initialState_def newAudio_def playerOf_def runEffects_def
      fireLoadedData_def buildSegmentMap_def enhance_def Let_def getCurrentSegment_def
      pauseIfAudio_def pauseAudio_def loadSegmentAudio_def resolveTarget_def chapterUrl_def)

lemma getCurrentVerse_markers:
  "getCurrentVerse (withTime t (loaded (markerPlaylist r)))
     = (case refMatch r of
          None \<Rightarrow> Inr None
        | Some (book, chapter, verseSpec) \<Rightarrow>
            (case parseVerses verseSpec of
               None \<Rightarrow> Inl Unmodelled
             | Some verses \<Rightarrow>
                 Inr (Some (verseLabel book chapter (currentVerseOf t [0, 2, 5, 9] verses)))))"
proof -
  let ?p = "loaded (markerPlaylist r)"
  note m = marker_segment [of r]
  from m have s: "getCurrentSegment ?p = Some (the (getCurrentSegment ?p))" by blast
  from m have td: "timingData (the (getCurrentSegment ?p))
      = Some \<lparr> timingReference = r, timestamps = Some [0, 2, 5, 9] \<rparr>" by blast
  have ts: "timestamps \<lparr> timingReference = r, timestamps = Some [0, 2, 5, 9] \<rparr>
      = Some [0, 2, 5, 9]" by simp
  from m have rf: "reference (the (getCurrentSegment ?p)) = Some r" by blast
  from m have a: "audioRef ?p = Some (the (audioRef ?p))" by blast
  show ?thesis
    by (rule getCurrentVerse_withTime [OF s td ts rf a])
qed

text \<open>
  C7, amended. For the active segment with markers 0, 2, 5, 9 and the label
  \<open>JHN 3:1-3\<close>, at every real time \<open>t\<close> the function returns a verse and never \<open>null\<close>
  or an error: the first verse (\<open>JHN 3:1\<close>) for \<open>t\<close> below 2, so also for every time
  before the first marker; the second (\<open>JHN 3:2\<close>) for \<open>t\<close> from 2 and below 5, so at
  3.4; the last (\<open>JHN 3:3\<close>) for \<open>t\<close> from 5 on, so also for every time after the last
  marker. With the label \<open>JHN 3\<close> it returns \<open>null\<close> at every real time.
\<close>

theorem getCurrentVerse_marker_example:
  "getCurrentVerse (withTime t (loaded (markerPlaylist ''JHN 3:1-3'')))
     = Inr (Some (if t < 2 then ''JHN 3:1'' else if t < 5 then ''JHN 3:2'' else ''JHN 3:3''))
   \<and> getCurrentVerse (withTime t (loaded (markerPlaylist ''JHN 3''))) = Inr None"
proof -
  have m1: "refMatch ''JHN 3:1-3'' = Some (''JHN'', ''3'', ''1-3'')" by code_simp
  have m2: "parseVerses ''1-3'' = Some [1, 2, 3]" by code_simp
  have m3: "refMatch ''JHN 3'' = None" by code_simp
  have l1: "verseLabel ''JHN'' ''3'' (Some 1) = ''JHN 3:1''" by code_simp
  have l2: "verseLabel ''JHN'' ''3'' (Some 2) = ''JHN 3:2''" by code_simp
  have l3: "verseLabel ''JHN'' ''3'' (Some 3) = ''JHN 3:3''" by code_simp
  have "getCurrentVerse (withTime t (loaded (markerPlaylist ''JHN 3:1-3'')))
          = Inr (Some (verseLabel ''JHN'' ''3'' (currentVerseOf t [0, 2, 5, 9] [1, 2, 3])))"
    by (simp add: getCurrentVerse_markers m1 m2)
  also have "\<dots> = Inr (Some (verseLabel ''JHN'' ''3''
                       (Some (if t < 2 then 1 else if t < 5 then 2 else 3))))"
    unfolding currentVerseOf_markers ..
  also have "\<dots> = Inr (Some (if t < 2 then ''JHN 3:1''
                              else if t < 5 then ''JHN 3:2'' else ''JHN 3:3''))"
    by (cases "t < 2"; cases "t < 5"; simp only: if_True if_False l1 l2 l3)
  finally have first: "getCurrentVerse (withTime t (loaded (markerPlaylist ''JHN 3:1-3'')))
     = Inr (Some (if t < 2 then ''JHN 3:1'' else if t < 5 then ''JHN 3:2'' else ''JHN 3:3''))" .
  have second: "getCurrentVerse (withTime t (loaded (markerPlaylist ''JHN 3''))) = Inr None"
    by (simp add: getCurrentVerse_markers m3)
  from first second show ?thesis ..
qed

text \<open>The times of the example: 3.4, -1 (before the first marker), 100 (after the last).\<close>

theorem getCurrentVerse_marker_example_witness:
  "getCurrentVerse (withTime 3.4 (loaded (markerPlaylist ''JHN 3:1-3''))) = Inr (Some ''JHN 3:2'')
   \<and> getCurrentVerse (withTime (-1) (loaded (markerPlaylist ''JHN 3:1-3'')))
       = Inr (Some ''JHN 3:1'')
   \<and> getCurrentVerse (withTime 100 (loaded (markerPlaylist ''JHN 3:1-3'')))
       = Inr (Some ''JHN 3:3'')
   \<and> getCurrentVerse (withTime 100 (loaded (markerPlaylist ''JHN 3''))) = Inr None"
  using getCurrentVerse_marker_example [of "3.4"] getCurrentVerse_marker_example [of "-1"]
    getCurrentVerse_marker_example [of 100]
  by simp

section \<open>C1: seeking out of range\<close>

lemma loadSegmentAudio_Index_cases:
  "loadSegmentAudio (Index i) off p = Inr p
   \<or> (\<exists>a'. loadSegmentAudio (Index i) off p = Inr (p\<lparr>audioRef := Some a'\<rparr>))
   \<or> (\<exists>a'. loadSegmentAudio (Index i) off p
          = Inr (p\<lparr>state := (state p)\<lparr>isLoading := True\<rparr>, audioRef := Some a'\<rparr>))"
  by (auto simp: loadSegmentAudio_def resolveTarget_def Let_def split: option.splits)

text \<open>\<open>seekTo\<close> stores the time it is given, whatever the time.\<close>

lemma seekTo_virtualTime_unclamped:
  assumes "audioRef p = Some a" and "segmentMapRef p \<noteq> []"
  shows "thrown (seekTo vt p) = None \<and> virtualTime (state (playerOf (seekTo vt p))) = vt"
proof (cases "snd (seekTarget vt (segmentMapRef p)) = currentSegmentRef p")
  case True
  with assms show ?thesis
    by (simp add: seekTo_def Let_def thrown_def playerOf_def)
next
  case False
  let ?p3 = "(pauseIfAudio (p\<lparr>isSeekingRef := True\<rparr>))\<lparr>state :=
      (state (pauseIfAudio (p\<lparr>isSeekingRef := True\<rparr>)))\<lparr>currentSegmentIndex := snd (seekTarget vt (segmentMapRef p)),
         virtualTime := vt\<rparr>\<rparr>"
  from loadSegmentAudio_Index_cases
    [of "int (snd (seekTarget vt (segmentMapRef p)))"
        "vt - virtualStart (fst (seekTarget vt (segmentMapRef p)))" ?p3]
  show ?thesis
    using assms False
    by (auto simp: seekTo_def Let_def thrown_def playerOf_def)
qed

text \<open>
  C1 fails in the source: an out-of-range target selects the first or the last segment,
  but the time itself is not clamped. \<open>seekPlaylist\<close> is one segment from 10 to 20
  seconds of its file, so \<open>totalDuration\<close> is 10. \<open>seekTo(-5)\<close> leaves \<open>virtualTime\<close> at
  -5 and puts the element at 5, five seconds before the segment; \<open>seekTo(110)\<close> leaves
  \<open>virtualTime\<close> at 110 and puts the element at 120, and the next time update, after
  the seek guard is cleared, reports 110 again.
\<close>

theorem seekTo_out_of_range_not_clamped:
  "totalDuration (state (loaded seekPlaylist)) = 10
   \<and> thrown (seekTo (-5) (loaded seekPlaylist)) = None
   \<and> virtualTime (state (playerOf (seekTo (-5) (loaded seekPlaylist)))) = -5
   \<and> currentSegmentIndex (state (playerOf (seekTo (-5) (loaded seekPlaylist)))) = 0
   \<and> map_option audioCurrentTime (audioRef (playerOf (seekTo (-5) (loaded seekPlaylist))))
       = Some 5
   \<and> virtualTime (state (playerOf (seekTo 110 (loaded seekPlaylist)))) = 110
   \<and> map_option audioCurrentTime (audioRef (playerOf (seekTo 110 (loaded seekPlaylist))))
       = Some 120
   \<and> virtualTime (state (playerOf (handleTimeUpdate (runClearSeeking
         (playerOf (seekTo 110 (loaded seekPlaylist))))))) = 110"
  by code_simp

end
